theory Spec2Isabelle
  imports Main "HOL-Library.Word"
begin

section \<open>Data model\<close>

text \<open>
  The script \<^verbatim>\<open>ConvertIcon.py\<close> reads one vector file, asks a rasterization library for
  one PNG per requested size, normalises each decoded image to the mode \<^verbatim>\<open>RGBA\<close> and hands
  the list to an image library that writes the icon container.  The two libraries and the
  operating system are outside the script: the libraries are parameters of the model, the
  file system is a map from path strings to nodes.
\<close>

type_synonym path = string
type_synonym bytes = "8 word list"

datatype node = File bytes | Dir

text \<open>Python exceptions that reach the caller of \<^verbatim>\<open>svg_to_ico\<close>.\<close>

datatype exn =
    FileNotFoundError path
  | IsADirectoryError path
  | NotADirectoryError path
  | IndexError
  | LibraryError string

text \<open>A decoded image (\<^verbatim>\<open>PIL.Image\<close>): the attributes the script reads, and its pixel data.\<close>

record image =
  width :: int
  height :: int
  mode :: string
  pixels :: bytes

text \<open>
  Everything the script does that is visible from outside, in the order it happens:
  lines printed, existence probes, the file opened for reading, each call of the
  rasterizer with its arguments, and the call of \<^verbatim>\<open>Image.save\<close> with its arguments
  (the image it is called on, the path, \<^verbatim>\<open>sizes=\<close> and \<^verbatim>\<open>append_images=\<close>).
\<close>

datatype event =
    Print string
  | Exists path
  | OpenRead path
  | Svg2png bytes int int
  | Save image path "(int \<times> int) list" "image list"

text \<open>
  The libraries.  \<open>svg2png\<close> is \<^verbatim>\<open>cairosvg.svg2png(bytestring, output_width, output_height)\<close>,
  \<open>image_open\<close> is \<^verbatim>\<open>Image.open(io.BytesIO(png_data))\<close>, \<open>convert_pixels\<close> is the pixel
  conversion behind \<^verbatim>\<open>Image.convert\<close> (from a mode to a mode), \<open>ico_encode\<close> is the icon
  encoder behind \<^verbatim>\<open>Image.save(format='ICO')\<close>, and \<open>save_leaves\<close> says what a save whose
  encoder raises leaves at the output path, given what was there.  Each of the three
  fallible calls either raises or returns.
\<close>

record libs =
  svg2png :: "bytes \<Rightarrow> int \<Rightarrow> int \<Rightarrow> exn + bytes"
  image_open :: "bytes \<Rightarrow> exn + image"
  convert_pixels :: "string \<Rightarrow> string \<Rightarrow> bytes \<Rightarrow> bytes"
  ico_encode :: "image \<Rightarrow> (int \<times> int) list \<Rightarrow> image list \<Rightarrow> exn + bytes"
  save_leaves :: "node option \<Rightarrow> node option"

text \<open>
  The world: the file system, the list objects of the Python heap (the \<^verbatim>\<open>sizes\<close> argument
  is passed by reference, and the default of line 20 is one shared object), and the
  events so far.
\<close>

record world =
  nodes :: "path \<rightharpoonup> node"
  heap :: "nat \<Rightarrow> int list"
  events :: "event list"

definition emit :: "event \<Rightarrow> world \<Rightarrow> world" where
  "emit e w = w\<lparr>events := events w @ [e]\<rparr>"

text \<open>The events a run added to the ones that were there.\<close>

definition new_events :: "world \<Rightarrow> world \<Rightarrow> event list" where
  "new_events w w' = drop (length (events w)) (events w')"

section \<open>Python and operating-system primitives\<close>

text \<open>\<^verbatim>\<open>str\<close> of an integer, as an f-string formats it.\<close>

fun str_nat :: "nat \<Rightarrow> string" where
  "str_nat n =
     (if n < 10 then [char_of (48 + n)]
      else str_nat (n div 10) @ [char_of (48 + n mod 10)])"

definition str_int :: "int \<Rightarrow> string" where
  "str_int i = (if i < 0 then ''-'' @ str_nat (nat (- i)) else str_nat (nat i))"

text \<open>\<^verbatim>\<open>os.path.join\<close> (POSIX): a component that starts with the separator restarts the path.\<close>

definition join2 :: "path \<Rightarrow> path \<Rightarrow> path" where
  "join2 a b =
     (if b \<noteq> [] \<and> hd b = CHR ''/'' then b
      else if a = [] \<or> last a = CHR ''/'' then a @ b
      else a @ ''/'' @ b)"

definition path_join :: "path \<Rightarrow> path list \<Rightarrow> path" where
  "path_join a ps = foldl join2 a ps"

text \<open>The directory part of a path: up to the last separator, trailing separators removed.\<close>

definition dirname :: "path \<Rightarrow> path" where
  "dirname p =
     (let head = rev (dropWhile (\<lambda>c. c \<noteq> CHR ''/'') (rev p))
      in if head \<noteq> [] \<and> \<not> list_all (\<lambda>c. c = CHR ''/'') head
         then rev (dropWhile (\<lambda>c. c = CHR ''/'') (rev head))
         else head)"

text \<open>\<^verbatim>\<open>os.path.exists\<close>.\<close>

definition path_exists :: "path \<Rightarrow> world \<Rightarrow> bool \<times> world" where
  "path_exists p w = (nodes w p \<noteq> None, emit (Exists p) w)"

text \<open>
  Lines 26-27, \<^verbatim>\<open>with open(svg_path, 'rb') as f: svg_data = f.read()\<close>: a missing path and
  a directory raise.
\<close>

definition read_file :: "path \<Rightarrow> world \<Rightarrow> (exn + bytes) \<times> world" where
  "read_file p w =
     (let w' = emit (OpenRead p) w
      in case nodes w p of
           None \<Rightarrow> (Inl (FileNotFoundError p), w')
         | Some Dir \<Rightarrow> (Inl (IsADirectoryError p), w')
         | Some (File b) \<Rightarrow> (Inr b, w'))"

text \<open>
  Whether the operating system lets a file be opened for writing at a path: not on a
  directory, and only inside an existing directory (an empty directory part is the
  current directory).
\<close>

definition open_write_error :: "world \<Rightarrow> path \<Rightarrow> exn option" where
  "open_write_error w p =
     (if p = [] then Some (FileNotFoundError p)
      else case nodes w p of
        Some Dir \<Rightarrow> Some (IsADirectoryError p)
      | _ \<Rightarrow>
         (let d = dirname p
          in if d = [] then None
             else case nodes w d of
                    Some Dir \<Rightarrow> None
                  | Some (File _) \<Rightarrow> Some (NotADirectoryError p)
                  | None \<Rightarrow> Some (FileNotFoundError p)))"

text \<open>\<^verbatim>\<open>img.convert(m)\<close>: a copy in mode \<open>m\<close>, of the same size.\<close>

definition convert :: "libs \<Rightarrow> string \<Rightarrow> image \<Rightarrow> image" where
  "convert L m img = img\<lparr>mode := m, pixels := convert_pixels L (mode img) m (pixels img)\<rparr>"

text \<open>
  \<^verbatim>\<open>im.save(fp, format='ICO', sizes=szs, append_images=app)\<close>: the file is written with
  what the encoder returns.  When the file cannot be opened nothing changes; when the
  encoder raises, the model leaves at \<open>fp\<close> whatever the library leaves there.
\<close>

definition save :: "libs \<Rightarrow> image \<Rightarrow> path \<Rightarrow> (int \<times> int) list \<Rightarrow> image list \<Rightarrow> world
    \<Rightarrow> (exn + unit) \<times> world" where
  "save L im fp szs app w =
     (let w1 = emit (Save im fp szs app) w
      in case open_write_error w fp of
           Some e \<Rightarrow> (Inl e, w1)
         | None \<Rightarrow>
            (case ico_encode L im szs app of
               Inl e \<Rightarrow> (Inl e, w1\<lparr>nodes := (nodes w1)(fp := save_leaves L (nodes w1 fp))\<rparr>)
             | Inr b \<Rightarrow> (Inr (), w1\<lparr>nodes := (nodes w1)(fp \<mapsto> File b)\<rparr>)))"

section \<open>The script\<close>

text \<open>
  The import block of lines 9-18 (which installs the two libraries when they cannot be
  imported) is not part of the model: the libraries are taken as present.
\<close>

text \<open>
  Lines 31-43, the loop over \<^verbatim>\<open>sizes\<close> with the list \<^verbatim>\<open>images\<close> as accumulator:
  print, rasterize at \<open>sz \<times> sz\<close> (the source's \<^verbatim>\<open>size\<close>), decode, convert to
  \<^verbatim>\<open>RGBA\<close> unless the mode is \<^verbatim>\<open>RGBA\<close> already, append.  An exception of either
  library ends the loop and the call.
\<close>

fun render :: "libs \<Rightarrow> bytes \<Rightarrow> int list \<Rightarrow> image list \<Rightarrow> world
    \<Rightarrow> (exn + image list) \<times> world" where
  "render L svg_data [] images w = (Inr images, w)"
| "render L svg_data (sz # rest) images w =
     (let w1 = emit (Print (''  Creating '' @ str_int sz @ ''x'' @ str_int sz @ '' icon...'')) w;
          w2 = emit (Svg2png svg_data sz sz) w1
      in case svg2png L svg_data sz sz of
           Inl e \<Rightarrow> (Inl e, w2)
         | Inr png_data \<Rightarrow>
            (case image_open L png_data of
               Inl e \<Rightarrow> (Inl e, w2)
             | Inr img \<Rightarrow>
                render L svg_data rest
                  (images @ [if mode img \<noteq> ''RGBA'' then convert L ''RGBA'' img else img]) w2))"

text \<open>
  Lines 20-54.  \<open>sizes\<close> is the reference of the list object passed as \<^verbatim>\<open>sizes\<close>;
  \<^verbatim>\<open>images[0]\<close> raises \<^verbatim>\<open>IndexError\<close> on the empty list.  The only return is \<^verbatim>\<open>return True\<close>.
\<close>

definition svg_to_ico :: "libs \<Rightarrow> path \<Rightarrow> path \<Rightarrow> nat \<Rightarrow> world \<Rightarrow> (exn + bool) \<times> world" where
  "svg_to_ico L svg_path ico_path sizes w =
     (let w1 = emit (Print (''Converting '' @ svg_path @ '' to '' @ ico_path)) w
      in case read_file svg_path w1 of
           (Inl e, w2) \<Rightarrow> (Inl e, w2)
         | (Inr svg_data, w2) \<Rightarrow>
            (case render L svg_data (heap w2 sizes) [] w2 of
               (Inl e, w3) \<Rightarrow> (Inl e, w3)
             | (Inr images, w3) \<Rightarrow>
                (case images of
                   [] \<Rightarrow> (Inl IndexError, w3)
                 | img0 # others \<Rightarrow>
                    (case save L img0 ico_path (map (\<lambda>img. (width img, height img)) images)
                            others w3 of
                       (Inl e, w4) \<Rightarrow> (Inl e, w4)
                     | (Inr u, w4) \<Rightarrow>
                        (Inr True, emit (Print (''Successfully created '' @ ico_path)) w4)))))"

text \<open>
  The default of the parameter \<^verbatim>\<open>sizes\<close> is one list object, created when line 20 is
  executed; every call that omits the argument receives this object.
\<close>

definition default_sizes :: nat where
  "default_sizes = 0"

definition initial_world :: "(path \<rightharpoonup> node) \<Rightarrow> world" where
  "initial_world fs =
     \<lparr>nodes = fs, heap = (\<lambda>r. [])(default_sizes := [16, 32, 48, 64, 128, 256]), events = []\<rparr>"

text \<open>
  Lines 56-70, the entry point, for the directory \<open>script_dir\<close> of the script.  The
  process ends normally, by \<^verbatim>\<open>sys.exit(1)\<close>, or by an exception that nothing catches.
\<close>

datatype exit = Completed | SystemExit int | Uncaught exn

definition default_svg :: "path \<Rightarrow> path" where
  "default_svg script_dir =
     path_join script_dir [''EnvironmentBuilderApp'', ''Resources'', ''TestTree.svg'']"

definition default_ico :: "path \<Rightarrow> path" where
  "default_ico script_dir =
     path_join script_dir [''EnvironmentBuilderApp'', ''Resources'', ''TestTree.ico'']"

definition alternate_svg :: "path \<Rightarrow> path" where
  "alternate_svg script_dir = path_join script_dir [''..'', ''TestTree.svg'']"

definition main :: "libs \<Rightarrow> path \<Rightarrow> world \<Rightarrow> exit \<times> world" where
  "main L script_dir w =
     (let svg_path = default_svg script_dir;
          ico_path = default_ico script_dir;
          (found, w1) = path_exists svg_path w;
          svg_path = (if \<not> found then alternate_svg script_dir else svg_path);
          (found, w2) = path_exists svg_path w1
      in if found then
           (case svg_to_ico L svg_path ico_path default_sizes w2 of
              (Inl e, w3) \<Rightarrow> (Uncaught e, w3)
            | (Inr r, w3) \<Rightarrow> (Completed, w3))
         else (SystemExit 1, emit (Print (''SVG file not found: '' @ svg_path)) w2))"

text \<open>A caller that passes its own list creates the list object first.\<close>

definition new_list :: "nat \<Rightarrow> int list \<Rightarrow> world \<Rightarrow> world" where
  "new_list r xs w = w\<lparr>heap := (heap w)(r := xs)\<rparr>"


section \<open>A small instance of the libraries\<close>

text \<open>
  A rasterizer that honours the requested size for \<open>0 \<le> size < 65536\<close> (its PNG is the
  two sizes, two bytes each), a decoder for it that reports the mode \<^verbatim>\<open>RGB\<close>, and an
  encoder that writes a count and the directory.  It is used to run the script on
  concrete inputs.
\<close>

definition be16 :: "int \<Rightarrow> bytes" where
  "be16 n = [word_of_int (n div 256), word_of_int (n mod 256)]"

definition toy_svg2png :: "bytes \<Rightarrow> int \<Rightarrow> int \<Rightarrow> exn + bytes" where
  "toy_svg2png d w h =
     (if w < 0 \<or> h < 0 \<or> 65536 \<le> w \<or> 65536 \<le> h then Inl (LibraryError ''ValueError'')
      else Inr (be16 w @ be16 h))"

definition toy_image_open :: "bytes \<Rightarrow> exn + image" where
  "toy_image_open png =
     (case png of
        [a, b, c, d] \<Rightarrow>
          Inr \<lparr>width = uint a * 256 + uint b, height = uint c * 256 + uint d,
                mode = ''RGB'', pixels = []\<rparr>
      | _ \<Rightarrow> Inl (LibraryError ''UnidentifiedImageError''))"

definition toy_ico_encode :: "image \<Rightarrow> (int \<times> int) list \<Rightarrow> image list \<Rightarrow> exn + bytes" where
  "toy_ico_encode im szs app =
     Inr (word_of_int (int (length szs)) # concat (map (\<lambda>(a, b). be16 a @ be16 b) szs))"

definition toy_libs :: libs where
  "toy_libs =
     \<lparr>svg2png = toy_svg2png, image_open = toy_image_open,
      convert_pixels = (\<lambda>m1 m2 px. px), ico_encode = toy_ico_encode,
      save_leaves = (\<lambda>old. old)\<rparr>"

section \<open>Reading a trace\<close>

text \<open>
  The paths probed with \<^verbatim>\<open>os.path.exists\<close>, the paths opened for reading, the calls of
  the rasterizer and the calls of \<^verbatim>\<open>Image.save\<close> in a list of events, each in order.
\<close>

definition probes :: "event list \<Rightarrow> path list" where
  "probes evs = [p. Exists p \<leftarrow> evs]"

definition reads :: "event list \<Rightarrow> path list" where
  "reads evs = [p. OpenRead p \<leftarrow> evs]"

definition svg2png_calls :: "event list \<Rightarrow> (bytes \<times> int \<times> int) list" where
  "svg2png_calls evs = [(d, a, b). Svg2png d a b \<leftarrow> evs]"

definition save_calls :: "event list \<Rightarrow> (image \<times> path \<times> (int \<times> int) list \<times> image list) list" where
  "save_calls evs = [(im, fp, szs, app). Save im fp szs app \<leftarrow> evs]"


definition exact_at :: "libs \<Rightarrow> bytes \<Rightarrow> int \<Rightarrow> bool" where
  "exact_at L d s =
     (case svg2png L d s s of
        Inl e \<Rightarrow> False
      | Inr png \<Rightarrow>
         (case image_open L png of
            Inl e \<Rightarrow> False
          | Inr img \<Rightarrow> width img = s \<and> height img = s))"

section \<open>Sample worlds\<close>

text \<open>
  File systems to run the entry point on: the repository with the vector file in the
  resource directory, with the vector file only at the alternate place, and without it.
\<close>

definition repo_dirs :: "path \<rightharpoonup> node" where
  "repo_dirs =
     [''/repo'' \<mapsto> Dir,
      ''/repo/EnvironmentBuilderApp'' \<mapsto> Dir,
      ''/repo/EnvironmentBuilderApp/Resources'' \<mapsto> Dir]"

definition svg_bytes :: bytes where
  "svg_bytes = [60, 115, 118, 103, 47, 62]"

definition repo_with_svg :: world where
  "repo_with_svg =
     initial_world
       (repo_dirs(''/repo/EnvironmentBuilderApp/Resources/TestTree.svg'' \<mapsto> File svg_bytes))"

definition repo_with_alternate :: world where
  "repo_with_alternate = initial_world (repo_dirs(''/repo/../TestTree.svg'' \<mapsto> File svg_bytes))"

definition repo_without_svg :: world where
  "repo_without_svg = initial_world repo_dirs"

text \<open>A caller's own list object, and the repository with the caller's list \<open>[16, 32]\<close>.\<close>

definition caller_list :: nat where
  "caller_list = 1"

definition two_sizes :: world where
  "two_sizes = new_list caller_list [16, 32] repo_with_svg"

text \<open>The world after the entry point's call of \<open>svg_to_ico\<close> on the repository.\<close>

definition first_run :: world where
  "first_run =
     snd (svg_to_ico toy_libs (default_svg ''/repo'') (default_ico ''/repo'') default_sizes
            repo_with_svg)"


section \<open>Properties\<close>

lemma events_emit [simp]: "events (emit e w) = events w @ [e]"
  by (simp add: emit_def)

lemma nodes_emit [simp]: "nodes (emit e w) = nodes w"
  by (simp add: emit_def)

lemma heap_emit [simp]: "heap (emit e w) = heap w"
  by (simp add: emit_def)

subsection \<open>Traces\<close>

lemma probes_simps [simp]:
  "probes [] = []"
  "probes (xs @ ys) = probes xs @ probes ys"
  "probes (Exists p # es) = p # probes es"
  "probes (Print t # es) = probes es"
  "probes (OpenRead p # es) = probes es"
  "probes (Svg2png d a b # es) = probes es"
  "probes (Save im fp szs app # es) = probes es"
  by (simp_all add: probes_def)

lemma reads_simps [simp]:
  "reads [] = []"
  "reads (xs @ ys) = reads xs @ reads ys"
  "reads (OpenRead p # es) = p # reads es"
  "reads (Print t # es) = reads es"
  "reads (Exists p # es) = reads es"
  "reads (Svg2png d a b # es) = reads es"
  "reads (Save im fp szs app # es) = reads es"
  by (simp_all add: reads_def)

lemma svg2png_calls_simps [simp]:
  "svg2png_calls [] = []"
  "svg2png_calls (xs @ ys) = svg2png_calls xs @ svg2png_calls ys"
  "svg2png_calls (Svg2png d a b # es) = (d, a, b) # svg2png_calls es"
  "svg2png_calls (Print t # es) = svg2png_calls es"
  "svg2png_calls (Exists p # es) = svg2png_calls es"
  "svg2png_calls (OpenRead p # es) = svg2png_calls es"
  "svg2png_calls (Save im fp szs app # es) = svg2png_calls es"
  by (simp_all add: svg2png_calls_def)

lemma save_calls_simps [simp]:
  "save_calls [] = []"
  "save_calls (xs @ ys) = save_calls xs @ save_calls ys"
  "save_calls (Save im fp szs app # es) = (im, fp, szs, app) # save_calls es"
  "save_calls (Print t # es) = save_calls es"
  "save_calls (Exists p # es) = save_calls es"
  "save_calls (OpenRead p # es) = save_calls es"
  "save_calls (Svg2png d a b # es) = save_calls es"
  by (simp_all add: save_calls_def)

lemma new_events_append [simp]: "events w' = events w @ evs \<Longrightarrow> new_events w w' = evs"
  by (simp add: new_events_def)


text \<open>The loop touches neither the file system nor the heap, and only adds events of its own.\<close>

lemma render_frame:
  "render L d szs imgs w = (r, w') \<Longrightarrow>
     nodes w' = nodes w \<and> heap w' = heap w \<and>
     (\<exists>evs. events w' = events w @ evs \<and> probes evs = [] \<and> reads evs = [] \<and> save_calls evs = [])"
proof (induction szs arbitrary: imgs w)
  case Nil
  then show ?case by auto
next
  case (Cons s szs)
  show ?case
  proof (cases "svg2png L d s s")
    case (Inl e)
    with Cons.prems show ?thesis by auto
  next
    case png: (Inr png_data)
    show ?thesis
    proof (cases "image_open L png_data")
      case (Inl e)
      with png Cons.prems show ?thesis by auto
    next
      case (Inr img)
      with png Cons.prems Cons.IH show ?thesis
        by (fastforce simp: Let_def)
    qed
  qed
qed


lemma convert_size [simp]:
  "width (convert L m img) = width img" "height (convert L m img) = height img"
  "mode (convert L m img) = m"
  by (simp_all add: convert_def)

text \<open>The images the loop returns do not depend on the world it runs in.\<close>

lemma render_result_indep:
  "fst (render L d szs imgs w) = fst (render L d szs imgs v)"
proof (induction szs arbitrary: imgs w v)
  case Nil
  show ?case by simp
next
  case (Cons s szs)
  show ?case
    by (simp add: Let_def Cons.IH split: sum.split)
qed

text \<open>
  A loop that returns has appended one image per size, in order, each in mode RGBA and,
  where the rasterizer was exact, of the requested size; it called the rasterizer once
  per size with that size as width and height.
\<close>

lemma render_returns:
  "render L d szs imgs w = (Inr res, w') \<Longrightarrow>
     \<exists>new. res = imgs @ new \<and>
       list_all2 (\<lambda>s img. mode img = ''RGBA'' \<and>
                    (exact_at L d s \<longrightarrow> width img = s \<and> height img = s)) szs new \<and>
       svg2png_calls (new_events w w') = map (\<lambda>s. (d, s, s)) szs"
proof (induction szs arbitrary: imgs w)
  case Nil
  then show ?case by (simp add: new_events_def)
next
  case (Cons s szs)
  from Cons.prems obtain png where png: "svg2png L d s s = Inr png"
    by (cases "svg2png L d s s") (auto simp: Let_def)
  from Cons.prems png obtain img where img: "image_open L png = Inr img"
    by (cases "image_open L png") (auto simp: Let_def)
  define img' where "img' = (if mode img \<noteq> ''RGBA'' then convert L ''RGBA'' img else img)"
  define w2 where
    "w2 = emit (Svg2png d s s)
            (emit (Print (''  Creating '' @ str_int s @ ''x'' @ str_int s @ '' icon...'')) w)"
  from Cons.prems png img have run: "render L d szs (imgs @ [img']) w2 = (Inr res, w')"
    by (simp add: Let_def img'_def w2_def)
  from Cons.IH [OF run] obtain new where new:
    "res = (imgs @ [img']) @ new"
    "list_all2 (\<lambda>s img. mode img = ''RGBA'' \<and>
                    (exact_at L d s \<longrightarrow> width img = s \<and> height img = s)) szs new"
    "svg2png_calls (new_events w2 w') = map (\<lambda>s. (d, s, s)) szs"
    by blast
  from render_frame [OF run] obtain evs where evs: "events w' = events w2 @ evs"
    by blast
  have head: "mode img' = ''RGBA'' \<and> (exact_at L d s \<longrightarrow> width img' = s \<and> height img' = s)"
    using png img by (simp add: img'_def exact_at_def)
  have calls: "svg2png_calls (new_events w w') = (d, s, s) # svg2png_calls (new_events w2 w')"
    using evs by (simp add: w2_def)
  show ?case
  proof (intro exI conjI)
    show "res = imgs @ (img' # new)" using new(1) by simp
    show "list_all2 (\<lambda>s img. mode img = ''RGBA'' \<and>
                    (exact_at L d s \<longrightarrow> width img = s \<and> height img = s)) (s # szs) (img' # new)"
      using head new(2) by simp
    show "svg2png_calls (new_events w w') = map (\<lambda>s. (d, s, s)) (s # szs)"
      using calls new(3) by simp
  qed
qed


text \<open>A loop that raises raises what one of the two libraries raised at one of the sizes.\<close>

lemma render_raises:
  "render L d szs imgs w = (Inl e, w') \<Longrightarrow>
     \<exists>s\<in>set szs. svg2png L d s s = Inl e \<or>
        (\<exists>png. svg2png L d s s = Inr png \<and> image_open L png = Inl e)"
proof (induction szs arbitrary: imgs w)
  case Nil
  then show ?case by simp
next
  case (Cons s szs)
  show ?case
  proof (cases "svg2png L d s s")
    case (Inl e')
    with Cons.prems show ?thesis by (simp add: Let_def)
  next
    case png: (Inr png)
    show ?thesis
    proof (cases "image_open L png")
      case (Inl e')
      with png Cons.prems show ?thesis by (auto simp: Let_def)
    next
      case (Inr img)
      with png Cons.prems have
        "\<exists>imgs' w2. render L d szs imgs' w2 = (Inl e, w')"
        by (auto simp: Let_def)
      with Cons.IH show ?thesis by fastforce
    qed
  qed
qed


subsection \<open>Reading and saving\<close>

lemma read_file_returns:
  "read_file p w = (Inr d, w') \<Longrightarrow> nodes w p = Some (File d) \<and> w' = emit (OpenRead p) w"
  by (auto simp: read_file_def Let_def split: option.splits node.splits)

lemma read_file_raises:
  "read_file p w = (Inl e, w') \<Longrightarrow>
     w' = emit (OpenRead p) w \<and>
     (nodes w p = None \<and> e = FileNotFoundError p \<or> nodes w p = Some Dir \<and> e = IsADirectoryError p)"
  by (auto simp: read_file_def Let_def split: option.splits node.splits)

lemma save_frame:
  "save L im fp szs app w = (r, w') \<Longrightarrow>
     heap w' = heap w \<and> events w' = events w @ [Save im fp szs app] \<and>
     (\<forall>p. p \<noteq> fp \<longrightarrow> nodes w' p = nodes w p)"
  by (auto simp: save_def Let_def split: option.splits sum.splits)

lemma save_returns:
  "save L im fp szs app w = (Inr u, w') \<Longrightarrow>
     open_write_error w fp = None \<and>
     (\<exists>b. ico_encode L im szs app = Inr b \<and> nodes w' fp = Some (File b))"
  by (auto simp: save_def Let_def split: option.splits sum.splits)


lemma save_accepted:
  "open_write_error w fp = None \<Longrightarrow> ico_encode L im szs app = Inr b \<Longrightarrow>
     fst (save L im fp szs app w) = Inr ()"
  by (simp add: save_def Let_def)

subsection \<open>The ways a call of \<open>svg_to_ico\<close> ends\<close>

lemma svg_to_ico_cases:
  assumes "svg_to_ico L svg_path ico_path r w = (res, w')"
  obtains
    (unreadable) e where
      "read_file svg_path (emit (Print (''Converting '' @ svg_path @ '' to '' @ ico_path)) w)
         = (Inl e, w')"
      "res = Inl e"
  | (render_raised) d w2 e where
      "read_file svg_path (emit (Print (''Converting '' @ svg_path @ '' to '' @ ico_path)) w)
         = (Inr d, w2)"
      "render L d (heap w r) [] w2 = (Inl e, w')"
      "res = Inl e"
  | (no_images) d w2 where
      "read_file svg_path (emit (Print (''Converting '' @ svg_path @ '' to '' @ ico_path)) w)
         = (Inr d, w2)"
      "render L d (heap w r) [] w2 = (Inr [], w')"
      "res = Inl IndexError"
  | (save_raised) d w2 img0 others w3 e where
      "read_file svg_path (emit (Print (''Converting '' @ svg_path @ '' to '' @ ico_path)) w)
         = (Inr d, w2)"
      "render L d (heap w r) [] w2 = (Inr (img0 # others), w3)"
      "save L img0 ico_path (map (\<lambda>img. (width img, height img)) (img0 # others)) others w3
         = (Inl e, w')"
      "res = Inl e"
  | (saved) d w2 img0 others w3 w4 where
      "read_file svg_path (emit (Print (''Converting '' @ svg_path @ '' to '' @ ico_path)) w)
         = (Inr d, w2)"
      "render L d (heap w r) [] w2 = (Inr (img0 # others), w3)"
      "save L img0 ico_path (map (\<lambda>img. (width img, height img)) (img0 # others)) others w3
         = (Inr (), w4)"
      "w' = emit (Print (''Successfully created '' @ ico_path)) w4"
      "res = Inr True"
proof -
  define w1 where "w1 = emit (Print (''Converting '' @ svg_path @ '' to '' @ ico_path)) w"
  obtain r2 w2 where rd: "read_file svg_path w1 = (r2, w2)" by (cases "read_file svg_path w1")
  show thesis
  proof (cases r2)
    case (Inl e)
    with assms rd show thesis
      by (intro unreadable [of e]) (simp_all add: svg_to_ico_def Let_def w1_def)
  next
    case d: (Inr d)
    have hp: "heap w2 = heap w"
      using read_file_returns rd d by (fastforce simp: w1_def)
    obtain r3 w3 where rn: "render L d (heap w r) [] w2 = (r3, w3)"
      by (cases "render L d (heap w r) [] w2")
    show thesis
    proof (cases r3)
      case (Inl e)
      with assms rd d rn hp show thesis
        by (intro render_raised [of d w2 e]) (simp_all add: svg_to_ico_def Let_def w1_def)
    next
      case imgs: (Inr imgs)
      show thesis
      proof (cases imgs)
        case Nil
        with assms rd d rn hp imgs show thesis
          by (intro no_images [of d w2]) (simp_all add: svg_to_ico_def Let_def w1_def)
      next
        case (Cons img0 others)
        obtain r4 w4 where sv:
          "save L img0 ico_path (map (\<lambda>img. (width img, height img)) (img0 # others)) others w3
             = (r4, w4)"
          by (cases "save L img0 ico_path
                       (map (\<lambda>img. (width img, height img)) (img0 # others)) others w3")
        show thesis
        proof (cases r4)
          case (Inl e)
          with assms rd d rn hp imgs Cons sv show thesis
            by (intro save_raised [of d w2 img0 others w3 e])
               (simp_all add: svg_to_ico_def Let_def w1_def)
        next
          case (Inr u)
          with assms rd d rn hp imgs Cons sv show thesis
            by (intro saved [of d w2 img0 others w3 w4])
               (simp_all add: svg_to_ico_def Let_def w1_def)
        qed
      qed
    qed
  qed
qed

text \<open>
  Whatever way a call ends: the heap is as before, only the output path may have
  changed in the file system, no path was probed and the input path was opened once.
\<close>

lemma svg_to_ico_frame:
  assumes "svg_to_ico L svg_path ico_path r w = (res, w')"
  shows "heap w' = heap w"
    and "\<forall>p. p \<noteq> ico_path \<longrightarrow> nodes w' p = nodes w p"
    and "\<exists>evs. events w' = events w @ evs \<and> probes evs = [] \<and> reads evs = [svg_path]"
proof -
  have "heap w' = heap w \<and> (\<forall>p. p \<noteq> ico_path \<longrightarrow> nodes w' p = nodes w p) \<and>
        (\<exists>evs. events w' = events w @ evs \<and> probes evs = [] \<and> reads evs = [svg_path])"
    using assms
  proof (cases rule: svg_to_ico_cases)
    case (unreadable e)
    from read_file_raises [OF unreadable(1)] show ?thesis by simp
  next
    case (render_raised d w2 e)
    from read_file_returns [OF render_raised(1)] render_frame [OF render_raised(2)]
    show ?thesis by auto
  next
    case (no_images d w2)
    from read_file_returns [OF no_images(1)] render_frame [OF no_images(2)]
    show ?thesis by auto
  next
    case (save_raised d w2 img0 others w3 e)
    from read_file_returns [OF save_raised(1)] render_frame [OF save_raised(2)]
      save_frame [OF save_raised(3)]
    show ?thesis by auto
  next
    case (saved d w2 img0 others w3 w4)
    from read_file_returns [OF saved(1)] render_frame [OF saved(2)] save_frame [OF saved(3)]
      saved(4)
    show ?thesis by auto
  qed
  then show "heap w' = heap w"
    and "\<forall>p. p \<noteq> ico_path \<longrightarrow> nodes w' p = nodes w p"
    and "\<exists>evs. events w' = events w @ evs \<and> probes evs = [] \<and> reads evs = [svg_path]"
    by blast+
qed

text \<open>
  A call that returns: the input was a file, the loop returned a non-empty list of
  images, and the output path holds what the encoder returned for the first image as
  primary image, the sizes of all images as directory and the other images appended.
\<close>

lemma svg_to_ico_returns:
  assumes "svg_to_ico L svg_path ico_path r w = (Inr t, w')"
  shows "\<exists>d imgs b.
           nodes w svg_path = Some (File d) \<and>
           fst (render L d (heap w r) [] v) = Inr imgs \<and> imgs \<noteq> [] \<and>
           ico_encode L (hd imgs) (map (\<lambda>img. (width img, height img)) imgs) (tl imgs) = Inr b \<and>
           nodes w' ico_path = Some (File b) \<and>
           save_calls (new_events w w') =
             [(hd imgs, ico_path, map (\<lambda>img. (width img, height img)) imgs, tl imgs)] \<and>
           svg2png_calls (new_events w w') = map (\<lambda>s. (d, s, s)) (heap w r)"
  using assms
proof (cases rule: svg_to_ico_cases)
  case (saved d w2 img0 others w3 w4)
  define imgs where "imgs = img0 # others"
  from read_file_returns [OF saved(1)] have
    rd: "nodes w svg_path = Some (File d)"
      "events w2 = events w @ [Print (''Converting '' @ svg_path @ '' to '' @ ico_path),
                                OpenRead svg_path]"
    by simp_all
  from saved(2) have "fst (render L d (heap w r) [] w2) = Inr imgs"
    by (simp add: imgs_def)
  then have rn: "fst (render L d (heap w r) [] v) = Inr imgs"
    using render_result_indep [of L d "heap w r" "[]" w2 v] by simp
  from render_frame [OF saved(2)] obtain evs where
    evs: "events w3 = events w2 @ evs" "save_calls evs = []"
    by blast
  from render_returns [OF saved(2)] evs(1) have
    calls: "svg2png_calls evs = map (\<lambda>s. (d, s, s)) (heap w r)"
    by auto
  from save_returns [OF saved(3)] obtain b where
    b: "ico_encode L img0 (map (\<lambda>img. (width img, height img)) (img0 # others)) others = Inr b"
      "nodes w4 ico_path = Some (File b)"
    by blast
  from save_frame [OF saved(3)] have
    sv: "events w4 = events w3 @
           [Save img0 ico_path (map (\<lambda>img. (width img, height img)) (img0 # others)) others]"
    by simp
  have ev: "events w' = events w @
      ([Print (''Converting '' @ svg_path @ '' to '' @ ico_path), OpenRead svg_path] @ evs @
       [Save img0 ico_path (map (\<lambda>img. (width img, height img)) (img0 # others)) others,
        Print (''Successfully created '' @ ico_path)])"
    using saved(4) sv evs(1) rd(2) by simp
  show ?thesis
  proof (intro exI conjI)
    show "nodes w svg_path = Some (File d)" by (rule rd(1))
    show "fst (render L d (heap w r) [] v) = Inr imgs" by (rule rn)
    show "imgs \<noteq> []" by (simp add: imgs_def)
    show "ico_encode L (hd imgs) (map (\<lambda>img. (width img, height img)) imgs) (tl imgs) = Inr b"
      using b(1) by (simp add: imgs_def)
    show "nodes w' ico_path = Some (File b)"
      using b(2) saved(4) by simp
    show "save_calls (new_events w w') =
            [(hd imgs, ico_path, map (\<lambda>img. (width img, height img)) imgs, tl imgs)]"
      using new_events_append [OF ev] evs(2) by (simp add: imgs_def)
    show "svg2png_calls (new_events w w') = map (\<lambda>s. (d, s, s)) (heap w r)"
      using new_events_append [OF ev] calls by simp
  qed
qed simp_all




text \<open>At most one save per call, and what it is handed is what the loop returned.\<close>

lemma svg_to_ico_saves:
  assumes "svg_to_ico L svg_path ico_path r w = (res, w')"
  shows "save_calls (new_events w w') = [] \<or>
         (\<exists>d imgs w2 w3. render L d (heap w r) [] w2 = (Inr imgs, w3) \<and> imgs \<noteq> [] \<and>
            save_calls (new_events w w') =
              [(hd imgs, ico_path, map (\<lambda>img. (width img, height img)) imgs, tl imgs)])"
  using assms
proof (cases rule: svg_to_ico_cases)
  case (unreadable e)
  from read_file_raises [OF unreadable(1)] show ?thesis by (simp add: new_events_def)
next
  case (render_raised d w2 e)
  from read_file_returns [OF render_raised(1)] render_frame [OF render_raised(2)]
  show ?thesis by (auto simp: new_events_def)
next
  case (no_images d w2)
  from read_file_returns [OF no_images(1)] render_frame [OF no_images(2)]
  show ?thesis by (auto simp: new_events_def)
next
  case (save_raised d w2 img0 others w3 e)
  from read_file_returns [OF save_raised(1)] render_frame [OF save_raised(2)]
    save_frame [OF save_raised(3)]
  have "save_calls (new_events w w') =
          [(img0, ico_path, map (\<lambda>img. (width img, height img)) (img0 # others), others)]"
    by (auto simp: new_events_def)
  with save_raised(2) show ?thesis by fastforce
next
  case (saved d w2 img0 others w3 w4)
  from read_file_returns [OF saved(1)] render_frame [OF saved(2)] save_frame [OF saved(3)]
    saved(4)
  have "save_calls (new_events w w') =
          [(img0, ico_path, map (\<lambda>img. (width img, height img)) (img0 # others), others)]"
    by (auto simp: new_events_def)
  with saved(2) show ?thesis by fastforce
qed

text \<open>Unfolding the sample libraries and worlds.\<close>

lemmas toy_defs =
  toy_libs_def toy_svg2png_def toy_image_open_def toy_ico_encode_def be16_def

lemmas world_defs =
  repo_with_svg_def repo_with_alternate_def repo_without_svg_def initial_world_def
  repo_dirs_def new_list_def default_sizes_def

lemma repo_paths:
  "default_svg ''/repo'' = ''/repo/EnvironmentBuilderApp/Resources/TestTree.svg''"
  "default_ico ''/repo'' = ''/repo/EnvironmentBuilderApp/Resources/TestTree.ico''"
  "alternate_svg ''/repo'' = ''/repo/../TestTree.svg''"
  by (simp_all add: default_svg_def default_ico_def alternate_svg_def path_join_def join2_def)

lemmas run_defs =
  svg_to_ico_def read_file_def save_def open_write_error_def dirname_def convert_def
  new_events_def Let_def

lemma first_run_eval:
  "fst (svg_to_ico toy_libs (default_svg ''/repo'') (default_ico ''/repo'') default_sizes
          repo_with_svg) = Inr True"
  "nodes first_run = (nodes repo_with_svg)(default_ico ''/repo'' \<mapsto>
      File [6, 0, 16, 0, 16, 0, 32, 0, 32, 0, 48, 0, 48, 0, 64, 0, 64, 0, 128, 0, 128,
            1, 0, 1, 0])"
  "heap first_run = heap repo_with_svg"
  by (simp_all add: first_run_def run_defs repo_paths world_defs toy_defs)

text \<open>The entry point, when the path it settles on exists: two probes, then the call.\<close>

lemma main_found:
  assumes "nodes w p \<noteq> None"
    and "svg_to_ico L p ico_path r (emit (Exists p) (emit (Exists q) w)) = (res, w')"
  shows "probes (new_events w w') = [q, p]" and "reads (new_events w w') = [p]"
proof -
  from svg_to_ico_frame(3) [OF assms(2)] obtain evs where
    "events w' = events (emit (Exists p) (emit (Exists q) w)) @ evs"
    "probes evs = []" "reads evs = [p]"
    by blast
  then have ev: "events w' = events w @ ([Exists q, Exists p] @ evs)"
    and pr: "probes ([Exists q, Exists p] @ evs) = [q, p]"
    and re: "reads ([Exists q, Exists p] @ evs) = [p]"
    by simp_all
  from new_events_append [OF ev] pr show "probes (new_events w w') = [q, p]" by simp
  from new_events_append [OF ev] re show "reads (new_events w w') = [p]" by simp
qed


section \<open>The claims\<close>

text \<open>
  C9. Whenever \<open>svg_to_ico\<close> returns normally it returns \<open>True\<close>: a call either
  raises an exception or returns \<open>True\<close>, and no failure is reported through the
  returned value.
\<close>

theorem svg_to_ico_True_or_raises:
  "(\<exists>e. fst (svg_to_ico L svg_path ico_path r w) = Inl e) \<or>
   fst (svg_to_ico L svg_path ico_path r w) = Inr True"
proof -
  obtain res w' where run: "svg_to_ico L svg_path ico_path r w = (res, w')"
    by (cases "svg_to_ico L svg_path ico_path r w")
  then have "(\<exists>e. res = Inl e) \<or> res = Inr True"
    by (cases rule: svg_to_ico_cases) simp_all
  with run show ?thesis by simp
qed

text \<open>
  C3. When neither the default input path nor the alternate path exists, the entry
  point prints the failure message and exits with status 1; it has probed the two
  paths and done nothing else (no rasterizer call, no save), and the file system is
  as it was.
\<close>

theorem main_input_not_found:
  assumes "nodes w (default_svg script_dir) = None"
    and "nodes w (alternate_svg script_dir) = None"
  shows "fst (main L script_dir w) = SystemExit 1 \<and>
         nodes (snd (main L script_dir w)) = nodes w \<and>
         new_events w (snd (main L script_dir w)) =
           [Exists (default_svg script_dir), Exists (alternate_svg script_dir),
            Print (''SVG file not found: '' @ alternate_svg script_dir)]"
  using assms by (simp add: main_def path_exists_def Let_def new_events_def)

theorem main_input_not_found_witness:
  "nodes repo_without_svg (default_svg ''/repo'') = None \<and>
   nodes repo_without_svg (alternate_svg ''/repo'') = None \<and>
   fst (main toy_libs ''/repo'' repo_without_svg) = SystemExit 1 \<and>
   nodes (snd (main toy_libs ''/repo'' repo_without_svg)) = nodes repo_without_svg \<and>
   new_events repo_without_svg (snd (main toy_libs ''/repo'' repo_without_svg)) =
     [Exists ''/repo/EnvironmentBuilderApp/Resources/TestTree.svg'',
      Exists ''/repo/../TestTree.svg'',
      Print ''SVG file not found: /repo/../TestTree.svg'']"
proof -
  have h1: "nodes repo_without_svg (default_svg ''/repo'') = None"
    by (simp add: repo_paths repo_without_svg_def initial_world_def repo_dirs_def)
  have h2: "nodes repo_without_svg (alternate_svg ''/repo'') = None"
    by (simp add: repo_paths repo_without_svg_def initial_world_def repo_dirs_def)
  from main_input_not_found [OF h1 h2, of toy_libs] h1 h2 show ?thesis
    by (simp add: repo_paths)
qed










text \<open>
  C5. Every image handed to \<^verbatim>\<open>Image.save\<close> by a call of \<open>svg_to_ico\<close>, the primary
  image and each appended one, has the mode \<^verbatim>\<open>RGBA\<close>; and every image the loop appends to
  its list has the mode \<^verbatim>\<open>RGBA\<close>, a rendition decoded in another mode having been
  converted before it is appended.
\<close>

theorem embedded_images_rgba:
  "(\<forall>(im, fp, szs, app) \<in> set (save_calls (new_events w
        (snd (svg_to_ico L svg_path ico_path r w)))).
      \<forall>img \<in> set (im # app). mode img = ''RGBA'') \<and>
   (\<forall>res. fst (render L d szs imgs w) = Inr res \<longrightarrow>
      (\<exists>new. res = imgs @ new \<and> (\<forall>img \<in> set new. mode img = ''RGBA'')))"
proof
  obtain res w' where run: "svg_to_ico L svg_path ico_path r w = (res, w')"
    by (cases "svg_to_ico L svg_path ico_path r w")
  from svg_to_ico_saves [OF run]
  have "\<forall>(im, fp, szs, app) \<in> set (save_calls (new_events w w')).
          \<forall>img \<in> set (im # app). mode img = ''RGBA''"
  proof
    assume "save_calls (new_events w w') = []"
    then show ?thesis by simp
  next
    assume "\<exists>d imgs w2 w3. render L d (heap w r) [] w2 = (Inr imgs, w3) \<and> imgs \<noteq> [] \<and>
            save_calls (new_events w w') =
              [(hd imgs, ico_path, map (\<lambda>img. (width img, height img)) imgs, tl imgs)]"
    then obtain d imgs w2 w3 where
      rn: "render L d (heap w r) [] w2 = (Inr imgs, w3)" and ne: "imgs \<noteq> []"
      and calls: "save_calls (new_events w w') =
              [(hd imgs, ico_path, map (\<lambda>img. (width img, height img)) imgs, tl imgs)]"
      by blast
    from render_returns [OF rn] have "\<forall>img \<in> set imgs. mode img = ''RGBA''"
      by (auto simp: list_all2_conv_all_nth in_set_conv_nth)
    with ne have "\<forall>img \<in> set (hd imgs # tl imgs). mode img = ''RGBA''" by simp
    with calls show ?thesis by simp
  qed
  with run show "\<forall>(im, fp, szs, app) \<in> set (save_calls (new_events w
        (snd (svg_to_ico L svg_path ico_path r w)))).
      \<forall>img \<in> set (im # app). mode img = ''RGBA''"
    by simp
next
  show "\<forall>res. fst (render L d szs imgs w) = Inr res \<longrightarrow>
      (\<exists>new. res = imgs @ new \<and> (\<forall>img \<in> set new. mode img = ''RGBA''))"
  proof (intro allI impI)
    fix res assume "fst (render L d szs imgs w) = Inr res"
    then obtain w' where "render L d szs imgs w = (Inr res, w')"
      by (cases "render L d szs imgs w") simp
    from render_returns [OF this] show
      "\<exists>new. res = imgs @ new \<and> (\<forall>img \<in> set new. mode img = ''RGBA'')"
      by (auto simp: list_all2_conv_all_nth in_set_conv_nth)
  qed
qed


theorem embedded_images_rgba_witness:
  "toy_image_open [0, 16, 0, 16] = Inr \<lparr>width = 16, height = 16, mode = ''RGB'', pixels = []\<rparr> \<and>
   save_calls (new_events two_sizes
      (snd (svg_to_ico toy_libs (default_svg ''/repo'') (default_ico ''/repo'') caller_list
              two_sizes))) =
     [(\<lparr>width = 16, height = 16, mode = ''RGBA'', pixels = []\<rparr>,
       default_ico ''/repo'', [(16, 16), (32, 32)],
       [\<lparr>width = 32, height = 32, mode = ''RGBA'', pixels = []\<rparr>])] \<and>
   fst (render toy_libs svg_bytes [16] [] two_sizes) =
     Inr [\<lparr>width = 16, height = 16, mode = ''RGBA'', pixels = []\<rparr>]"
proof -
  have calls: "save_calls (new_events two_sizes
      (snd (svg_to_ico toy_libs (default_svg ''/repo'') (default_ico ''/repo'') caller_list
              two_sizes))) =
     [(\<lparr>width = 16, height = 16, mode = ''RGBA'', pixels = []\<rparr>,
       default_ico ''/repo'', [(16, 16), (32, 32)],
       [\<lparr>width = 32, height = 32, mode = ''RGBA'', pixels = []\<rparr>])]"
    by (simp add: run_defs repo_paths two_sizes_def caller_list_def world_defs toy_defs)
  have loop: "fst (render toy_libs svg_bytes [16] [] two_sizes) =
     Inr [\<lparr>width = 16, height = 16, mode = ''RGBA'', pixels = []\<rparr>]"
    by (simp add: run_defs toy_defs)
  from embedded_images_rgba [of two_sizes toy_libs "default_svg ''/repo''"
      "default_ico ''/repo''" caller_list svg_bytes "[16]" "[]"] calls loop
  show ?thesis
    by (simp add: toy_image_open_def)
qed

text \<open>
  C8. The libraries being functions of their arguments (the rasterizer is deterministic),
  two calls that return, on the same input bytes, equal size lists and the same output
  path, leave the same bytes at the output path, whatever else differs between the two
  worlds: the other files, an output file already there, the events so far.
\<close>

theorem svg_to_ico_deterministic:
  assumes "nodes w1 svg_path = Some (File d)"
    and "nodes w2 svg_path = Some (File d)"
    and "heap w1 r1 = heap w2 r2"
    and "fst (svg_to_ico L svg_path ico_path r1 w1) = Inr True"
    and "fst (svg_to_ico L svg_path ico_path r2 w2) = Inr True"
  shows "nodes (snd (svg_to_ico L svg_path ico_path r1 w1)) ico_path =
         nodes (snd (svg_to_ico L svg_path ico_path r2 w2)) ico_path"
proof -
  define v where "v = w1"
  from assms(4) have run1: "svg_to_ico L svg_path ico_path r1 w1 =
      (Inr True, snd (svg_to_ico L svg_path ico_path r1 w1))"
    by (cases "svg_to_ico L svg_path ico_path r1 w1") simp
  from assms(5) have run2: "svg_to_ico L svg_path ico_path r2 w2 =
      (Inr True, snd (svg_to_ico L svg_path ico_path r2 w2))"
    by (cases "svg_to_ico L svg_path ico_path r2 w2") simp
  from svg_to_ico_returns [OF run1, of v] assms(1) obtain imgs1 b1 where one:
    "fst (render L d (heap w1 r1) [] v) = Inr imgs1"
    "ico_encode L (hd imgs1) (map (\<lambda>img. (width img, height img)) imgs1) (tl imgs1) = Inr b1"
    "nodes (snd (svg_to_ico L svg_path ico_path r1 w1)) ico_path = Some (File b1)"
    by auto
  from svg_to_ico_returns [OF run2, of v] assms(2) obtain imgs2 b2 where two:
    "fst (render L d (heap w2 r2) [] v) = Inr imgs2"
    "ico_encode L (hd imgs2) (map (\<lambda>img. (width img, height img)) imgs2) (tl imgs2) = Inr b2"
    "nodes (snd (svg_to_ico L svg_path ico_path r2 w2)) ico_path = Some (File b2)"
    by auto
  from one(1) two(1) assms(3) have "imgs1 = imgs2" by simp
  with one(2) two(2) have "b1 = b2" by simp
  with one(3) two(3) show ?thesis by simp
qed


theorem svg_to_ico_deterministic_witness:
  "nodes repo_with_svg (default_svg ''/repo'') = Some (File svg_bytes) \<and>
   nodes first_run (default_svg ''/repo'') = Some (File svg_bytes) \<and>
   heap repo_with_svg default_sizes = heap first_run default_sizes \<and>
   fst (svg_to_ico toy_libs (default_svg ''/repo'') (default_ico ''/repo'') default_sizes
          repo_with_svg) = Inr True \<and>
   fst (svg_to_ico toy_libs (default_svg ''/repo'') (default_ico ''/repo'') default_sizes
          first_run) = Inr True \<and>
   nodes first_run (default_ico ''/repo'') =
     nodes (snd (svg_to_ico toy_libs (default_svg ''/repo'') (default_ico ''/repo'')
                   default_sizes first_run)) (default_ico ''/repo'')"
proof -
  have h1: "nodes repo_with_svg (default_svg ''/repo'') = Some (File svg_bytes)"
    by (simp add: repo_paths world_defs)
  have h2: "nodes first_run (default_svg ''/repo'') = Some (File svg_bytes)"
    by (simp add: first_run_eval(2) repo_paths world_defs)
  have h3: "heap repo_with_svg default_sizes = heap first_run default_sizes"
    by (simp add: first_run_eval(3))
  have h4: "fst (svg_to_ico toy_libs (default_svg ''/repo'') (default_ico ''/repo'')
                   default_sizes repo_with_svg) = Inr True"
    by (rule first_run_eval(1))
  have h5: "fst (svg_to_ico toy_libs (default_svg ''/repo'') (default_ico ''/repo'')
                   default_sizes first_run) = Inr True"
    by (simp add: run_defs first_run_eval(2,3) repo_paths world_defs toy_defs)
  from svg_to_ico_deterministic [OF h1 h2 h3 h4 h5] h1 h2 h3 h4 h5 show ?thesis
    by (simp add: first_run_def)
qed






text \<open>
  C7. The entry point probes two paths: the default path and then, when the default path
  does not exist, the one alternate path (otherwise the default path again).  It ends
  with the not-found exit exactly when neither exists; otherwise \<open>svg_to_ico\<close> opens the
  default path when it exists and the alternate path when only that one exists.
\<close>

theorem main_probes_one_alternate:
  "probes (new_events w (snd (main L script_dir w))) =
     [default_svg script_dir,
      if nodes w (default_svg script_dir) = None then alternate_svg script_dir
      else default_svg script_dir] \<and>
   (fst (main L script_dir w) = SystemExit 1 \<longleftrightarrow>
      nodes w (default_svg script_dir) = None \<and> nodes w (alternate_svg script_dir) = None) \<and>
   reads (new_events w (snd (main L script_dir w))) =
     (if nodes w (default_svg script_dir) \<noteq> None then [default_svg script_dir]
      else if nodes w (alternate_svg script_dir) \<noteq> None then [alternate_svg script_dir]
      else [])"
proof -
  define dflt where "dflt = default_svg script_dir"
  define alt where "alt = alternate_svg script_dir"
  define ico where "ico = default_ico script_dir"
  consider (default) "nodes w dflt \<noteq> None"
    | (alternate) "nodes w dflt = None" "nodes w alt \<noteq> None"
    | (neither) "nodes w dflt = None" "nodes w alt = None"
    by blast
  then have
    "probes (new_events w (snd (main L script_dir w))) =
       [dflt, if nodes w dflt = None then alt else dflt] \<and>
     (fst (main L script_dir w) = SystemExit 1 \<longleftrightarrow> nodes w dflt = None \<and> nodes w alt = None) \<and>
     reads (new_events w (snd (main L script_dir w))) =
       (if nodes w dflt \<noteq> None then [dflt] else if nodes w alt \<noteq> None then [alt] else [])"
  proof cases
    case default
    obtain res w' where run:
      "svg_to_ico L dflt ico default_sizes (emit (Exists dflt) (emit (Exists dflt) w)) = (res, w')"
      by (cases "svg_to_ico L dflt ico default_sizes (emit (Exists dflt) (emit (Exists dflt) w))")
    with default have m: "main L script_dir w =
        (case res of Inl e \<Rightarrow> Uncaught e | Inr t \<Rightarrow> Completed, w')"
      by (auto simp: main_def path_exists_def Let_def dflt_def alt_def ico_def split: sum.splits)
    from main_found [OF default run] default m show ?thesis
      by (auto split: sum.splits)
  next
    case alternate
    obtain res w' where run:
      "svg_to_ico L alt ico default_sizes (emit (Exists alt) (emit (Exists dflt) w)) = (res, w')"
      by (cases "svg_to_ico L alt ico default_sizes (emit (Exists alt) (emit (Exists dflt) w))")
    with alternate have m: "main L script_dir w =
        (case res of Inl e \<Rightarrow> Uncaught e | Inr t \<Rightarrow> Completed, w')"
      by (auto simp: main_def path_exists_def Let_def dflt_def alt_def ico_def split: sum.splits)
    from main_found [OF alternate(2) run] alternate m show ?thesis
      by (auto split: sum.splits)
  next
    case neither
    then show ?thesis
      by (simp add: main_def path_exists_def Let_def dflt_def alt_def new_events_def)
  qed
  then show ?thesis by (simp add: dflt_def alt_def)
qed


theorem main_probes_one_alternate_witness:
  "nodes repo_with_alternate (default_svg ''/repo'') = None \<and>
   nodes repo_with_alternate (alternate_svg ''/repo'') = Some (File svg_bytes) \<and>
   probes (new_events repo_with_alternate (snd (main toy_libs ''/repo'' repo_with_alternate))) =
     [''/repo/EnvironmentBuilderApp/Resources/TestTree.svg'', ''/repo/../TestTree.svg''] \<and>
   reads (new_events repo_with_alternate (snd (main toy_libs ''/repo'' repo_with_alternate))) =
     [''/repo/../TestTree.svg''] \<and>
   fst (main toy_libs ''/repo'' repo_with_alternate) = Completed"
proof -
  have n: "nodes repo_with_alternate (default_svg ''/repo'') = None"
    "nodes repo_with_alternate (alternate_svg ''/repo'') = Some (File svg_bytes)"
    by (simp_all add: repo_paths world_defs)
  have c: "fst (main toy_libs ''/repo'' repo_with_alternate) = Completed"
    by (simp add: main_def path_exists_def run_defs repo_paths world_defs toy_defs)
  from main_probes_one_alternate [of repo_with_alternate toy_libs "''/repo''"] n c
  show ?thesis by (simp add: repo_paths)
qed











end
